theory Spec2Isabelle
  imports Main
begin

section \<open>The ultimatum-game client: data model\<close>

text \<open>
  The React component \<open>App\<close> keeps the client's copy of a game session and drives the
  game through HTTP requests. Its state variables become one record, its handlers become
  functions from state to state, and the outcome of each \<open>fetch\<close> is an argument of the
  handler that awaits it.

  JavaScript values are modelled as follows. Numbers that the game uses as counters and
  scores are \<open>int\<close>. Strings are \<open>string\<close>, one \<open>char\<close> per code unit, so that
  \<open>length\<close> is \<open>.length\<close> and \<open>take n\<close> is \<open>.slice(0, n)\<close>. A value that may be
  \<open>null\<close> is an \<open>option\<close>; the server sends every field of a session and of a message,
  \<open>null\<close> where it has no value, and the one message the client builds itself has no
  \<open>decision\<close>, which no code reads. Objects of the message list carry an address,
  because the code compares them with \<open>!==\<close>.

  The definitions follow the later version of the component, which holds the leaderboard
  and the optimistic update of \<open>makeProposal\<close>. The two versions have the same
  \<open>isWinner\<close>, \<open>getCurrentPhase\<close> and name-dialog effect; where a claim is about
  \<open>submitPlayerName\<close>, which differs, both versions are given.
\<close>

datatype js_error = TypeError

datatype 'a fetch_result = Throws string | Returns 'a

text \<open>One entry of \<open>gameState.messages\<close> (a round event of the ledger).\<close>

record game_message =
  player :: string
  proposal :: "int option"
  decision :: "bool option"
  message :: "string option"
  round_num :: int
  role :: string

text \<open>
  An element of the message array: \<open>null\<close>, or an object with its identity. Message
  objects are never mutated, so the content is kept beside the address.
\<close>

datatype msg_ref = Null | Obj nat game_message

record game_state =
  current_round :: int
  human_score :: int
  ai_score :: int
  game_over :: bool
  winner :: "string option"
  player_name :: "string option"
  messages :: "msg_ref list option"

subsection \<open>JavaScript primitives used by the component\<close>

text \<open>The remainder operator \<open>%\<close>: the result has the sign of the dividend.\<close>

definition js_rem :: "int \<Rightarrow> int \<Rightarrow> int" where
  "js_rem a b = sgn a * (\<bar>a\<bar> mod \<bar>b\<bar>)"

text \<open>\<open>!s\<close> for a string that may be \<open>null\<close>: true for \<open>null\<close> and for the empty string.\<close>

definition falsy :: "string option \<Rightarrow> bool" where
  "falsy v = (case v of None \<Rightarrow> True | Some s \<Rightarrow> s = [])"

text \<open>Strict identity \<open>===\<close> of two elements of the message array.\<close>

fun same_object :: "msg_ref \<Rightarrow> msg_ref \<Rightarrow> bool" where
  "same_object Null Null = True"
| "same_object (Obj a _) (Obj b _) = (a = b)"
| "same_object _ _ = False"

section \<open>Pure functions of the game state\<close>

text \<open>
  \<open>isWinner\<close>:
  \<^verbatim>\<open>if (!state) return false;
  return state.human_score > 30 || (state.human_score - state.ai_score) > 10;\<close>
\<close>

definition isWinner :: "game_state option \<Rightarrow> bool" where
  "isWinner state =
     (case state of
        None \<Rightarrow> False
      | Some st \<Rightarrow> human_score st > 30 \<or> (human_score st - ai_score st) > 10)"

text \<open>
  \<open>getCurrentPhase\<close>, branch by branch; the state variable \<open>gameState\<close> it reads is
  the argument. The early returns come first; \<open>lastMessage\<close> is the last element of a
  non-empty array, so the index is in range.
\<close>

definition getCurrentPhase :: "game_state option \<Rightarrow> string" where
  "getCurrentPhase gameState =
     (case gameState of
        None \<Rightarrow> ''start''
      | Some gs \<Rightarrow>
          if game_over gs then ''game_over''
          else (case messages gs of
                  None \<Rightarrow> ''human_propose''
                | Some ms \<Rightarrow>
                    if length ms = 0 then ''human_propose''
                    else
                      let lastMessage = ms ! (length ms - 1) in
                      if js_rem (current_round gs) 2 = 1 then
                        (case lastMessage of
                           Null \<Rightarrow> ''human_propose''
                         | Obj _ m \<Rightarrow>
                             if role m = ''decider'' then ''human_propose''
                             else ''waiting_ai_decision'')
                      else
                        (case lastMessage of
                           Null \<Rightarrow> ''waiting_ai_proposal''
                         | Obj _ m \<Rightarrow>
                             if role m = ''decider'' then ''waiting_ai_proposal''
                             else if player m = ''ai'' \<and> role m = ''proposer''
                               then ''human_decide''
                             else ''waiting'')))"


section \<open>Rendering of proposals\<close>

text \<open>
  The history line of one message:
  \<^verbatim>\<open>{msg.role === 'proposer' && msg.proposal !== null && (
    <span> Proposed {msg.proposal} points for you, {10 - msg.proposal} points for AI</span>)}\<close>
  The span is modelled by the two numbers it shows, \<open>(for you, for AI)\<close>; \<open>None\<close> means
  that no span is rendered.
\<close>

definition historyProposalSpan :: "game_message \<Rightarrow> (int \<times> int) option" where
  "historyProposalSpan msg =
     (if role msg = ''proposer'' then
        (case proposal msg of None \<Rightarrow> None | Some p \<Rightarrow> Some (p, 10 - p))
      else None)"

text \<open>
  The panel shown in phase \<open>human_decide\<close>:
  \<^verbatim>\<open>if (!gameState.messages || gameState.messages.length === 0) return null;
  const lastProposal = gameState.messages[gameState.messages.length - 1];
  ... {lastProposal.proposal} points for you, {10 - lastProposal.proposal} points for AI\<close>
  A \<open>null\<close> proposal renders as nothing on the left and counts as 0 in the subtraction;
  reading a property of a \<open>null\<close> element throws.
\<close>

definition humanDecidePanel :: "game_state \<Rightarrow> js_error + (int option \<times> int) option" where
  "humanDecidePanel gs =
     (case messages gs of
        None \<Rightarrow> Inr None
      | Some ms \<Rightarrow>
          if length ms = 0 then Inr None
          else (case ms ! (length ms - 1) of
                  Null \<Rightarrow> Inl TypeError
                | Obj _ lastProposal \<Rightarrow>
                    Inr (Some (proposal lastProposal,
                       10 - (case proposal lastProposal of None \<Rightarrow> 0 | Some p \<Rightarrow> p)))))"

section \<open>The component state and its environment\<close>

record entry =
  entry_player_name :: string
  entry_human_score :: int
  entry_ai_score :: int
  entry_created_at :: string

record leaderboard_data =
  entries :: "entry list"
  total_pages :: int

record new_game_data =
  session_id :: string

text \<open>The calls of \<open>fetch\<close>, in the order the component makes them.\<close>

datatype request =
    GetLeaderboard string int int
  | PostNewGame "string option"
  | GetGame string
  | PatchGame "string option" string
  | PostPropose string int string
  | PostDecide string bool string
  | PostAiPropose string

text \<open>
  \<open>setTimeout(() => aiPropose(), 1000)\<close>: a pending call with its delay. The callback
  is the \<open>aiPropose\<close> of the render in which the handler was created, so it keeps the
  \<open>sessionId\<close> of that render; the timer carries it.
\<close>

datatype timer = AiProposeTimer nat "string option"

text \<open>
  The \<open>useState\<close> variables of \<open>App\<close>, followed by the environment the handlers act
  on: the browser's \<open>localStorage\<close>, the trace of requests, the pending timers and the
  next free object address.
\<close>

record app =
  gameState :: "game_state option"
  sessionId :: "string option"
  loading :: bool
  error :: string
  showNameDialog :: bool
  playerName :: string
  leaderboard :: "entry list"
  showFullLeaderboard :: bool
  leaderboardSort :: string
  leaderboardPage :: int
  leaderboardTotalPages :: int
  proposalPoints :: int
  proposalMessage :: string
  decisionMessage :: string
  localStorage :: "string \<rightharpoonup> string"
  requests :: "request list"
  timers :: "timer list"
  nextAddr :: nat

definition STORAGE_KEY :: string where
  "STORAGE_KEY = ''unfairness_player_name''"

definition initial_state :: "(string \<rightharpoonup> string) \<Rightarrow> app" where
  "initial_state storage =
     \<lparr>gameState = None, sessionId = None, loading = False, error = [],
      showNameDialog = False, playerName = [], leaderboard = [],
      showFullLeaderboard = False, leaderboardSort = ''score'', leaderboardPage = 1,
      leaderboardTotalPages = 1, proposalPoints = 5, proposalMessage = [],
      decisionMessage = [], localStorage = storage, requests = [], timers = [],
      nextAddr = 0\<rparr>"

subsection \<open>Strings\<close>

text \<open>
  \<open>String.prototype.trim\<close> strips white space and line terminators from both ends. Of
  the code points it strips, those that fit a \<open>char\<close> are tab, line feed, vertical tab,
  form feed, carriage return, space and no-break space.
\<close>

definition is_space :: "char \<Rightarrow> bool" where
  "is_space c = ((of_char c :: nat) \<in> {9, 10, 11, 12, 13, 32, 160})"

definition trim :: "string \<Rightarrow> string" where
  "trim s = rev (dropWhile is_space (rev (dropWhile is_space s)))"

subsection \<open>Responses\<close>

text \<open>
  \<open>response.json()\<close> builds new objects: every message object of a parsed response
  gets an address that no earlier object has.
\<close>

fun json_parse_messages :: "nat \<Rightarrow> msg_ref list \<Rightarrow> msg_ref list" where
  "json_parse_messages n [] = []"
| "json_parse_messages n (Null # ms) = Null # json_parse_messages n ms"
| "json_parse_messages n (Obj _ m # ms) = Obj n m # json_parse_messages (Suc n) ms"

text \<open>\<open>const data = await response.json(); setGameState(data);\<close>\<close>

definition setGameState_json :: "game_state \<Rightarrow> app \<Rightarrow> app" where
  "setGameState_json data s =
     s\<lparr>gameState :=
          Some (data\<lparr>messages := map_option (json_parse_messages (nextAddr s)) (messages data)\<rparr>),
       nextAddr := nextAddr s + (case messages data of None \<Rightarrow> 0 | Some ms \<Rightarrow> length ms)\<rparr>"

section \<open>Handlers and effects\<close>

text \<open>
  Every handler runs to completion on the state it is called in, with the outcome of
  its request given as an argument. An exception that no \<open>catch\<close> of the handler
  receives is the result \<open>Inl\<close>.
\<close>

subsection \<open>Leaderboard\<close>

text \<open>
  \<open>fetchLeaderboard\<close>: one GET with the current sort and page and a page size of 10; a
  failure is only logged.
\<close>

definition fetchLeaderboard :: "app \<Rightarrow> leaderboard_data fetch_result \<Rightarrow> app" where
  "fetchLeaderboard s r =
     (let s1 = s\<lparr>requests := requests s @ [GetLeaderboard (leaderboardSort s) (leaderboardPage s) 10]\<rparr>
      in case r of
           Returns data \<Rightarrow>
             s1\<lparr>leaderboard := entries data, leaderboardTotalPages := total_pages data\<rparr>
         | Throws err \<Rightarrow> s1)"

text \<open>
  The effect run on mount: a saved name, if there is one and it is not empty, becomes
  \<open>playerName\<close> after trimming; then the leaderboard is fetched.
\<close>

definition mountEffect :: "app \<Rightarrow> leaderboard_data fetch_result \<Rightarrow> app" where
  "mountEffect s r =
     (let savedName = localStorage s STORAGE_KEY;
          s1 = (if falsy savedName then s
                else s\<lparr>playerName := trim (case savedName of None \<Rightarrow> [] | Some n \<Rightarrow> n)\<rparr>)
      in fetchLeaderboard s1 r)"

text \<open>
  The effect on \<open>[gameState?.game_over, leaderboardSort, leaderboardPage]\<close>:
  \<^verbatim>\<open>if (gameState?.game_over || leaderboardSort || leaderboardPage) fetchLeaderboard();\<close>
\<close>

definition leaderboardEffect :: "app \<Rightarrow> leaderboard_data fetch_result \<Rightarrow> app" where
  "leaderboardEffect s r =
     (if (case gameState s of None \<Rightarrow> False | Some gs \<Rightarrow> game_over gs)
         \<or> leaderboardSort s \<noteq> [] \<or> leaderboardPage s \<noteq> 0
      then fetchLeaderboard s r else s)"

text \<open>The four buttons of \<open>LeaderboardControls\<close>.\<close>

definition sortByScore :: "app \<Rightarrow> app" where
  "sortByScore s = s\<lparr>leaderboardSort := ''score'', leaderboardPage := 1\<rparr>"

definition sortByDifference :: "app \<Rightarrow> app" where
  "sortByDifference s = s\<lparr>leaderboardSort := ''difference'', leaderboardPage := 1\<rparr>"

definition previousPage :: "app \<Rightarrow> app" where
  "previousPage s = s\<lparr>leaderboardPage := max 1 (leaderboardPage s - 1)\<rparr>"

definition nextPage :: "app \<Rightarrow> app" where
  "nextPage s = s\<lparr>leaderboardPage := min (leaderboardTotalPages s) (leaderboardPage s + 1)\<rparr>"

subsection \<open>Name dialog\<close>

text \<open>
  The effect on \<open>[gameState, showNameDialog]\<close>:
  \<^verbatim>\<open>if (gameState?.game_over && isWinner(gameState) && !gameState.player_name && !showNameDialog)
    setShowNameDialog(true);\<close>
\<close>

definition nameDialogEffect :: "app \<Rightarrow> app" where
  "nameDialogEffect s =
     (if (case gameState s of None \<Rightarrow> False | Some gs \<Rightarrow> game_over gs)
         \<and> isWinner (gameState s)
         \<and> (case gameState s of None \<Rightarrow> False | Some gs \<Rightarrow> falsy (player_name gs))
         \<and> \<not> showNameDialog s
      then s\<lparr>showNameDialog := True\<rparr> else s)"

text \<open>The debug trigger on the score bar, with the three modifier keys of the click.\<close>

definition handleScoreClick :: "bool \<Rightarrow> bool \<Rightarrow> bool \<Rightarrow> app \<Rightarrow> app" where
  "handleScoreClick shiftKey metaKey ctrlKey s =
     (if shiftKey \<and> (metaKey \<or> ctrlKey) then s\<lparr>showNameDialog := True\<rparr> else s)"

text \<open>
  \<open>submitPlayerName\<close>: nothing happens for a name that trims to the empty string;
  otherwise the trimmed name is saved and sent, and the dialog closes whatever the
  outcome (\<open>finally\<close>).
\<close>

definition submitPlayerName :: "app \<Rightarrow> game_state fetch_result \<Rightarrow> app" where
  "submitPlayerName s r =
     (let trimmedName = trim (playerName s) in
      if trimmedName = [] then s
      else
        let s1 = s\<lparr>loading := True,
                   localStorage := (localStorage s)(STORAGE_KEY \<mapsto> trimmedName),
                   requests := requests s @ [PatchGame (sessionId s) trimmedName]\<rparr>;
            s2 = (case r of
                    Returns data \<Rightarrow> setGameState_json data s1
                  | Throws err \<Rightarrow> s1\<lparr>error := ''Failed to save name: '' @ err\<rparr>)
        in s2\<lparr>loading := False, showNameDialog := False\<rparr>)"

text \<open>
  The same handler as \<open>src/frontend/src/App.js\<close> has it: the test trims, but the name
  saved and sent is \<open>playerName\<close> itself, under that file's storage key, and the dialog
  closes only on success.
\<close>

definition STORAGE_KEY_frontend :: string where
  "STORAGE_KEY_frontend = ''trustmeclaude_player_name''"

definition submitPlayerName_frontend :: "app \<Rightarrow> game_state fetch_result \<Rightarrow> app" where
  "submitPlayerName_frontend s r =
     (if trim (playerName s) = [] then s
      else
        let s1 = s\<lparr>loading := True,
                   localStorage := (localStorage s)(STORAGE_KEY_frontend \<mapsto> playerName s),
                   requests := requests s @ [PatchGame (sessionId s) (playerName s)]\<rparr>;
            s2 = (case r of
                    Returns data \<Rightarrow> (setGameState_json data s1)\<lparr>showNameDialog := False\<rparr>
                  | Throws err \<Rightarrow> s1\<lparr>error := ''Failed to save name: '' @ err\<rparr>)
        in s2\<lparr>loading := False\<rparr>)"

subsection \<open>Form fields\<close>

text \<open>\<open>setProposalMessage(e.target.value.slice(0, 256))\<close> and its twin.\<close>

definition handleProposalMessageChange :: "string \<Rightarrow> app \<Rightarrow> app" where
  "handleProposalMessageChange v s = s\<lparr>proposalMessage := take 256 v\<rparr>"

definition handleDecisionMessageChange :: "string \<Rightarrow> app \<Rightarrow> app" where
  "handleDecisionMessageChange v s = s\<lparr>decisionMessage := take 256 v\<rparr>"

subsection \<open>Game requests\<close>

text \<open>
  \<open>fetchGameState(id)\<close>, called by \<open>startNewGame\<close> with the new session's id: no
  request for an empty id; a failure sets the error text.
\<close>

definition fetchGameState :: "string \<Rightarrow> app \<Rightarrow> game_state fetch_result \<Rightarrow> app" where
  "fetchGameState ident s r =
     (if ident = [] then s
      else
        let s1 = s\<lparr>requests := requests s @ [GetGame ident]\<rparr>
        in case r of
             Returns data \<Rightarrow> setGameState_json data s1
           | Throws err \<Rightarrow> s1\<lparr>error := ''Failed to fetch game state: '' @ err\<rparr>)"

text \<open>
  \<open>startNewGame\<close>: the name sent is \<open>playerName?.trim() || null\<close>; the response
  carries the session id, which the server always sets.
\<close>

definition startNewGame ::
  "app \<Rightarrow> new_game_data fetch_result \<Rightarrow> game_state fetch_result \<Rightarrow> app" where
  "startNewGame s r1 r2 =
     (let s1 = s\<lparr>loading := True, error := [],
                requests := requests s @
                  [PostNewGame (if trim (playerName s) = [] then None
                                else Some (trim (playerName s)))]\<rparr>;
          s2 = (case r1 of
                  Returns data \<Rightarrow>
                    fetchGameState (session_id data) (s1\<lparr>sessionId := Some (session_id data)\<rparr>) r2
                | Throws err \<Rightarrow> s1\<lparr>error := ''Failed to start new game: '' @ err\<rparr>)
      in s2\<lparr>loading := False\<rparr>)"

text \<open>
  The test both \<open>makeProposal\<close> and \<open>makeDecision\<close> apply to the response, against the
  round of the game state the handler was called with:
  \<^verbatim>\<open>data.current_round > gameState.current_round && !data.game_over
    && data.current_round % 2 === 0\<close>
\<close>

definition aiProposesNext :: "game_state \<Rightarrow> game_state \<Rightarrow> bool" where
  "aiProposesNext data gs =
     (current_round data > current_round gs \<and> \<not> game_over data
      \<and> js_rem (current_round data) 2 = 0)"

text \<open>
  \<open>makeProposal\<close>. The temporary message is a new object, appended before the request;
  the \<open>catch\<close> branch filters it out again by identity. Reading \<open>current_round\<close> of a
  \<open>null\<close> game state, or spreading a \<open>null\<close> message list, throws outside the \<open>try\<close>.
\<close>

definition makeProposal :: "app \<Rightarrow> game_state fetch_result \<Rightarrow> js_error + app" where
  "makeProposal s r =
     (case sessionId s of
        None \<Rightarrow> Inr s
      | Some sid \<Rightarrow>
          if sid = [] then Inr s
          else (case gameState s of
                  None \<Rightarrow> Inl TypeError
                | Some gs \<Rightarrow>
                   (case messages gs of
                      None \<Rightarrow> Inl TypeError
                    | Some ms \<Rightarrow>
                        let tempMessage = Obj (nextAddr s)
                              \<lparr>player = ''human'', proposal = Some (proposalPoints s),
                               decision = None, message = Some (proposalMessage s),
                               round_num = current_round gs, role = ''proposer''\<rparr>;
                            s1 = s\<lparr>loading := True, error := [],
                                   nextAddr := Suc (nextAddr s),
                                   gameState := Some (gs\<lparr>messages := Some (ms @ [tempMessage])\<rparr>),
                                   requests := requests s @
                                     [PostPropose sid (proposalPoints s) (proposalMessage s)]\<rparr>;
                            s2 = (case r of
                                    Returns data \<Rightarrow>
                                      let s3 = (setGameState_json data s1)\<lparr>proposalMessage := []\<rparr>
                                      in if aiProposesNext data gs
                                         then s3\<lparr>timers := timers s3 @ [AiProposeTimer 1000 (sessionId s)]\<rparr>
                                         else s3
                                  | Throws err \<Rightarrow>
                                      s1\<lparr>error := ''Failed to make proposal: '' @ err,
                                         gameState :=
                                           map_option
                                             (\<lambda>prev. prev\<lparr>messages :=
                                                map_option (filter (\<lambda>m. \<not> same_object m tempMessage))
                                                  (messages prev)\<rparr>)
                                             (gameState s1)\<rparr>)
                        in Inr (s2\<lparr>loading := False\<rparr>))))"

text \<open>
  The text of the \<open>TypeError\<close> that reading \<open>gameState.current_round\<close> raises when
  \<open>gameState\<close> is \<open>null\<close>.
\<close>

definition null_read_text :: string where
  "null_read_text = ''Cannot read properties of null (reading 'current_round')''"

text \<open>
  \<open>makeDecision(accept)\<close>. Everything is inside the \<open>try\<close>, so a \<open>null\<close> game state
  ends in the \<open>catch\<close> branch, after the response has been stored.
\<close>

definition makeDecision :: "bool \<Rightarrow> app \<Rightarrow> game_state fetch_result \<Rightarrow> app" where
  "makeDecision accept s r =
     (case sessionId s of
        None \<Rightarrow> s
      | Some sid \<Rightarrow>
          if sid = [] then s
          else
            let s1 = s\<lparr>loading := True, error := [],
                       requests := requests s @ [PostDecide sid accept (decisionMessage s)]\<rparr>;
                s2 = (case r of
                        Returns data \<Rightarrow>
                          let s3 = (setGameState_json data s1)\<lparr>decisionMessage := []\<rparr>
                          in (case gameState s of
                                None \<Rightarrow> s3\<lparr>error := ''Failed to make decision: '' @ null_read_text\<rparr>
                              | Some gs \<Rightarrow>
                                  if aiProposesNext data gs
                                  then s3\<lparr>timers := timers s3 @ [AiProposeTimer 1000 (sessionId s)]\<rparr>
                                  else s3)
                      | Throws err \<Rightarrow> s1\<lparr>error := ''Failed to make decision: '' @ err\<rparr>)
            in s2\<lparr>loading := False\<rparr>)"

text \<open>
  \<open>aiPropose\<close>, the callback of the timer. Its first argument is the \<open>sessionId\<close> of
  its closure; the state setters act on the state in which the timer fires.
\<close>

definition aiPropose :: "string option \<Rightarrow> app \<Rightarrow> game_state fetch_result \<Rightarrow> app" where
  "aiPropose closureSessionId s r =
     (case closureSessionId of
        None \<Rightarrow> s
      | Some sid \<Rightarrow>
          if sid = [] then s
          else
            let s1 = s\<lparr>loading := True, requests := requests s @ [PostAiPropose sid]\<rparr>;
                s2 = (case r of
                        Returns data \<Rightarrow> setGameState_json data s1
                      | Throws err \<Rightarrow> s1\<lparr>error := ''Failed to get AI proposal: '' @ err\<rparr>)
            in s2\<lparr>loading := False\<rparr>)"

section \<open>Runs of the component\<close>

text \<open>
  What can happen to the mounted component: an effect runs, the user acts on a control,
  or a timer fires. Requests are answered by the network, so each event that awaits a
  response carries it. No event is restricted to the phases in which its control is
  shown: the runs considered include every run of the real component.
\<close>

datatype event =
    MountEffect "leaderboard_data fetch_result"
  | LeaderboardEffect "leaderboard_data fetch_result"
  | NameDialogEffect
  | ScoreClick bool bool bool
  | StartNewGame "new_game_data fetch_result" "game_state fetch_result"
  | ProposalPointsChange int
  | ProposalMessageChange string
  | DecisionMessageChange string
  | PlayerNameChange string
  | SubmitPlayerName "game_state fetch_result"
  | SkipNameDialog
  | MakeProposal "game_state fetch_result"
  | MakeDecision bool "game_state fetch_result"
  | TimerFires "game_state fetch_result"
  | SortByScore
  | SortByDifference
  | PreviousPage
  | NextPage
  | ShowFullLeaderboard bool

fun handle :: "event \<Rightarrow> app \<Rightarrow> js_error + app" where
  "handle (MountEffect r) s = Inr (mountEffect s r)"
| "handle (LeaderboardEffect r) s = Inr (leaderboardEffect s r)"
| "handle NameDialogEffect s = Inr (nameDialogEffect s)"
| "handle (ScoreClick shiftKey metaKey ctrlKey) s = Inr (handleScoreClick shiftKey metaKey ctrlKey s)"
| "handle (StartNewGame r1 r2) s = Inr (startNewGame s r1 r2)"
| "handle (ProposalPointsChange v) s = Inr (s\<lparr>proposalPoints := v\<rparr>)"
| "handle (ProposalMessageChange v) s = Inr (handleProposalMessageChange v s)"
| "handle (DecisionMessageChange v) s = Inr (handleDecisionMessageChange v s)"
| "handle (PlayerNameChange v) s = Inr (s\<lparr>playerName := v\<rparr>)"
| "handle (SubmitPlayerName r) s = Inr (submitPlayerName s r)"
| "handle SkipNameDialog s = Inr (s\<lparr>showNameDialog := False\<rparr>)"
| "handle (MakeProposal r) s = makeProposal s r"
| "handle (MakeDecision accept r) s = Inr (makeDecision accept s r)"
| "handle (TimerFires r) s =
     (case timers s of
        [] \<Rightarrow> Inr s
      | AiProposeTimer delay closureSessionId # ts \<Rightarrow>
          Inr (aiPropose closureSessionId (s\<lparr>timers := ts\<rparr>) r))"
| "handle SortByScore s = Inr (sortByScore s)"
| "handle SortByDifference s = Inr (sortByDifference s)"
| "handle PreviousPage s = Inr (previousPage s)"
| "handle NextPage s = Inr (nextPage s)"
| "handle (ShowFullLeaderboard b) s = Inr (s\<lparr>showFullLeaderboard := b\<rparr>)"

text \<open>A run handles its events in order and stops at the first uncaught exception.\<close>

fun run :: "event list \<Rightarrow> app \<Rightarrow> js_error + app" where
  "run [] s = Inr s"
| "run (e # es) s = (case handle e s of Inl err \<Rightarrow> Inl err | Inr s' \<Rightarrow> run es s')"

section \<open>Invariants of runs\<close>

text \<open>A request body whose \<open>message\<close> field has at most 256 characters.\<close>

fun message_capped :: "request \<Rightarrow> bool" where
  "message_capped (PostPropose _ _ m) = (length m \<le> 256)"
| "message_capped (PostDecide _ _ m) = (length m \<le> 256)"
| "message_capped _ = True"

definition capped :: "app \<Rightarrow> bool" where
  "capped s =
     (length (proposalMessage s) \<le> 256 \<and> length (decisionMessage s) \<le> 256
      \<and> list_all message_capped (requests s))"

text \<open>A leaderboard query for a page counted from 1.\<close>

fun page_from_one :: "request \<Rightarrow> bool" where
  "page_from_one (GetLeaderboard _ p _) = (1 \<le> p)"
| "page_from_one _ = True"

text \<open>
  An event whose leaderboard response, if it carries one, has \<open>total_pages \<ge> 1\<close>. The
  client stores \<open>data.total_pages\<close> as it comes; the spec states for the endpoint that
  \<open>totalPages\<close> is at least 1 even when the board is empty.
\<close>

fun total_pages_ok :: "event \<Rightarrow> bool" where
  "total_pages_ok (MountEffect (Returns d)) = (1 \<le> total_pages d)"
| "total_pages_ok (LeaderboardEffect (Returns d)) = (1 \<le> total_pages d)"
| "total_pages_ok _ = True"

definition paged :: "app \<Rightarrow> bool" where
  "paged s =
     (1 \<le> leaderboardPage s \<and> 1 \<le> leaderboardTotalPages s
      \<and> list_all page_from_one (requests s))"

text \<open>Every message object of the state was allocated before the next free address.\<close>

fun below :: "nat \<Rightarrow> msg_ref \<Rightarrow> bool" where
  "below n Null = True"
| "below n (Obj a _) = (a < n)"

definition heap_ok :: "app \<Rightarrow> bool" where
  "heap_ok s =
     (case gameState s of
        None \<Rightarrow> True
      | Some gs \<Rightarrow>
          (case messages gs of
             None \<Rightarrow> True
           | Some ms \<Rightarrow> list_all (below (nextAddr s)) ms))"

section \<open>Example sessions\<close>

text \<open>Messages as the server records them, and a game in progress with a given ledger.\<close>

definition human_proposal :: "int \<Rightarrow> int \<Rightarrow> game_message" where
  "human_proposal r p =
     \<lparr>player = ''human'', proposal = Some p, decision = None, message = Some [],
      round_num = r, role = ''proposer''\<rparr>"

definition ai_proposal :: "int \<Rightarrow> int \<Rightarrow> game_message" where
  "ai_proposal r p =
     \<lparr>player = ''ai'', proposal = Some p, decision = None, message = Some ''Fair enough?'',
      round_num = r, role = ''proposer''\<rparr>"

definition ai_decision :: "int \<Rightarrow> bool \<Rightarrow> game_message" where
  "ai_decision r d =
     \<lparr>player = ''ai'', proposal = None, decision = Some d, message = Some ''Deal'',
      round_num = r, role = ''decider''\<rparr>"

definition human_decision :: "int \<Rightarrow> bool \<Rightarrow> game_message" where
  "human_decision r d =
     \<lparr>player = ''human'', proposal = None, decision = Some d, message = Some [],
      round_num = r, role = ''decider''\<rparr>"

definition example_game :: "int \<Rightarrow> msg_ref list \<Rightarrow> game_state" where
  "example_game r ms =
     \<lparr>current_round = r, human_score = 5, ai_score = 5, game_over = False,
      winner = None, player_name = None, messages = Some ms\<rparr>"

text \<open>The ledger after one and after two resolved rounds.\<close>

definition ledger_round1 :: "msg_ref list" where
  "ledger_round1 = [Obj 0 (human_proposal 1 5), Obj 1 (ai_decision 1 True)]"

definition ledger_round2 :: "msg_ref list" where
  "ledger_round2 =
     ledger_round1 @ [Obj 2 (ai_proposal 2 5), Obj 3 (human_decision 2 True)]"

text \<open>
  A session that has just been started against a server whose ledger already holds the
  human's proposal of round 1, and the state the component is in afterwards.
\<close>

definition example_events :: "event list" where
  "example_events =
     [StartNewGame (Returns \<lparr>session_id = ''abc''\<rparr>)
        (Returns (example_game 1 [Obj 0 (human_proposal 1 5)]))]"

definition example_started :: app where
  "example_started =
     (initial_state Map.empty)
       \<lparr>gameState := Some (example_game 1 [Obj 0 (human_proposal 1 5)]),
        sessionId := Some ''abc'',
        requests := [PostNewGame None, GetGame ''abc''],
        nextAddr := 1\<rparr>"

text \<open>
  The state after a proposal made there has failed to send. The temporary message of
  that call has the same content as the message already in the ledger, and another
  address.
\<close>

definition example_failed :: app where
  "example_failed =
     example_started
       \<lparr>error := ''Failed to make proposal: offline'',
        requests := requests example_started @ [PostPropose ''abc'' 5 []],
        nextAddr := 2\<rparr>"

text \<open>The same session after a long message was typed and a proposal failed to send.\<close>

definition example_typing :: "event list" where
  "example_typing =
     example_events @
       [ProposalMessageChange (replicate 300 (CHR ''x'')), MakeProposal (Throws ''offline'')]"

definition example_typed :: app where
  "example_typed =
     example_started
       \<lparr>error := ''Failed to make proposal: offline'',
        proposalMessage := replicate 256 (CHR ''x''),
        requests := requests example_started @
          [PostPropose ''abc'' 5 (replicate 256 (CHR ''x''))],
        nextAddr := 2\<rparr>"

text \<open>
  A fresh session in which the human proposes, the server answers with round 2 and the
  counterpart's decision, and the request for the counterpart's proposal then fails.
\<close>

definition example_fresh :: app where
  "example_fresh =
     (initial_state Map.empty)
       \<lparr>gameState := Some (example_game 1 []),
        sessionId := Some ''abc'',
        requests := [PostNewGame None, GetGame ''abc'']\<rparr>"

definition example_unanswered :: "event list" where
  "example_unanswered =
     [StartNewGame (Returns \<lparr>session_id = ''abc''\<rparr>) (Returns (example_game 1 [])),
      MakeProposal (Returns (example_game 2 ledger_round1)),
      TimerFires (Throws ''offline'')]"

definition example_stuck :: app where
  "example_stuck =
     example_fresh
       \<lparr>gameState :=
          Some (example_game 2 [Obj 1 (human_proposal 1 5), Obj 2 (ai_decision 1 True)]),
        error := ''Failed to get AI proposal: offline'',
        requests := requests example_fresh @
          [PostPropose ''abc'' 5 [], PostAiPropose ''abc''],
        nextAddr := 3\<rparr>"

text \<open>
  The same proposal answered by a server whose ledger already ends with the
  counterpart's proposal of round 2.
\<close>

definition example_overtaken :: app where
  "example_overtaken =
     example_fresh
       \<lparr>gameState :=
          Some (example_game 2
            [Obj 1 (human_proposal 1 5), Obj 2 (ai_decision 1 True), Obj 3 (ai_proposal 2 4)]),
        requests := requests example_fresh @ [PostPropose ''abc'' 5 []],
        timers := [AiProposeTimer 1000 (Some ''abc'')],
        nextAddr := 4\<rparr>"

text \<open>Paging through a leaderboard of two pages and changing the sort order.\<close>

definition example_paging :: "event list" where
  "example_paging =
     [MountEffect (Returns \<lparr>entries = [], total_pages = 2\<rparr>), NextPage, NextPage,
      LeaderboardEffect (Throws ''offline''), PreviousPage, PreviousPage, SortByDifference]"

definition example_paged :: app where
  "example_paged =
     (initial_state Map.empty)
       \<lparr>leaderboardSort := ''difference'', leaderboardTotalPages := 2,
        requests := [GetLeaderboard ''score'' 1 10, GetLeaderboard ''score'' 2 10]\<rparr>"

text \<open>The next-page button against a server that reports no pages at all.\<close>

definition example_no_pages :: "event list" where
  "example_no_pages =
     [MountEffect (Returns \<lparr>entries = [], total_pages = 0\<rparr>), NextPage,
      LeaderboardEffect (Returns \<lparr>entries = [], total_pages = 0\<rparr>)]"

definition example_page_zero :: app where
  "example_page_zero =
     (initial_state Map.empty)
       \<lparr>leaderboardPage := 0, leaderboardTotalPages := 0,
        requests := [GetLeaderboard ''score'' 1 10, GetLeaderboard ''score'' 0 10]\<rparr>"

section \<open>Facts about the primitives\<close>

lemma js_rem_2_odd: "0 \<le> a \<Longrightarrow> (js_rem a 2 = 1) = odd a"
  by (auto simp: js_rem_def sgn_if odd_iff_mod_2_eq_one)

lemma js_rem_2_even: "(js_rem a 2 = 0) = even a"
  by (auto simp: js_rem_def sgn_if split: if_splits)

lemmas example_defs = human_proposal_def ai_proposal_def ai_decision_def human_decision_def
  example_game_def ledger_round1_def ledger_round2_def example_events_def example_started_def
  example_failed_def example_typing_def example_typed_def example_paging_def example_paged_def
  example_fresh_def example_unanswered_def example_stuck_def example_overtaken_def
  example_no_pages_def example_page_zero_def initial_state_def

section \<open>The phase function\<close>

text \<open>
  C1, as stated, fails at two inputs. In round \<open>-1\<close>, which is odd, \<open>% 2\<close> gives \<open>-1\<close>
  and the even branch answers \<open>waiting_ai_proposal\<close>. In round 2 with an empty message
  list the guard on the list answers \<open>human_propose\<close> before the parity is looked at.
\<close>

theorem getCurrentPhase_parity_counterexample:
  "getCurrentPhase (Some (example_game (- 1) ledger_round2)) = ''waiting_ai_proposal''
   \<and> \<not> game_over (example_game (- 1) ledger_round2)
   \<and> odd (current_round (example_game (- 1) ledger_round2))
   \<and> getCurrentPhase (Some (example_game 2 [])) = ''human_propose''
   \<and> \<not> game_over (example_game 2 [])
   \<and> even (current_round (example_game 2 []))"
  by (simp add: getCurrentPhase_def js_rem_def example_defs)

text \<open>
  C1, amended. For a game that is not over, in a round \<open>r \<ge> 0\<close>, whose message list is
  absent or empty only if \<open>r\<close> is odd: the phase is \<open>human_propose\<close> only when \<open>r\<close> is odd,
  and \<open>waiting_ai_proposal\<close> or \<open>human_decide\<close> only when \<open>r\<close> is even; with \<open>r\<close> odd and
  the message list absent or empty, or its last message of role \<open>decider\<close>, the phase is
  \<open>human_propose\<close>; with \<open>r\<close> even and the last message of role \<open>decider\<close> it is
  \<open>waiting_ai_proposal\<close>. Nothing is said about an empty message list in an even round.
\<close>

theorem getCurrentPhase_parity:
  assumes "\<not> game_over gs" and "0 \<le> current_round gs"
      and "messages gs = None \<or> messages gs = Some [] \<longrightarrow> odd (current_round gs)"
  shows "(getCurrentPhase (Some gs) = ''human_propose'' \<longrightarrow> odd (current_round gs))
       \<and> (getCurrentPhase (Some gs) = ''waiting_ai_proposal''
             \<or> getCurrentPhase (Some gs) = ''human_decide'' \<longrightarrow> even (current_round gs))
       \<and> (odd (current_round gs) \<and> (messages gs = None \<or> messages gs = Some []) \<longrightarrow>
             getCurrentPhase (Some gs) = ''human_propose'')
       \<and> (\<forall>ms a m. messages gs = Some ms \<and> ms \<noteq> [] \<and> last ms = Obj a m
               \<and> role m = ''decider'' \<longrightarrow>
             getCurrentPhase (Some gs) =
               (if odd (current_round gs) then ''human_propose''
                else ''waiting_ai_proposal''))"
  using assms
  by (auto simp: getCurrentPhase_def Let_def js_rem_2_odd last_conv_nth
           split: msg_ref.splits if_splits option.splits)

theorem getCurrentPhase_parity_witness:
  "getCurrentPhase (Some (example_game 1 [])) = ''human_propose''
   \<and> odd (current_round (example_game 1 []))
   \<and> getCurrentPhase (Some (example_game 3 ledger_round2)) = ''human_propose''
   \<and> odd (current_round (example_game 3 ledger_round2))
   \<and> getCurrentPhase (Some (example_game 2 ledger_round1)) = ''waiting_ai_proposal''
   \<and> even (current_round (example_game 2 ledger_round1))"
  using getCurrentPhase_parity [of "example_game 1 []"]
        getCurrentPhase_parity [of "example_game 3 ledger_round2"]
        getCurrentPhase_parity [of "example_game 2 ledger_round1"]
  by (simp add: example_defs)

text \<open>
  C10, as stated, fails in round \<open>-1\<close>: it is odd, \<open>% 2\<close> gives \<open>-1\<close>, and the even branch
  answers \<open>human_decide\<close> after the counterpart's proposal.
\<close>

theorem human_decide_in_negative_odd_round:
  "getCurrentPhase (Some (example_game (- 1) (ledger_round1 @ [Obj 2 (ai_proposal 2 4)])))
     = ''human_decide''
   \<and> odd (current_round (example_game (- 1) (ledger_round1 @ [Obj 2 (ai_proposal 2 4)])))"
  by (simp add: getCurrentPhase_def js_rem_def example_defs)

text \<open>
  C10, amended. In a round \<open>r \<ge> 0\<close>, the phase is \<open>human_decide\<close> only when the game is not
  over, \<open>r\<close> is even and the last message is a proposer event of player \<open>ai\<close>. In an even
  round of a game that is not over, a last message that is a proposer event of player
  \<open>human\<close> gives the phase \<open>waiting\<close>.
\<close>

theorem human_decide_only_after_ai_proposal:
  assumes "0 \<le> current_round gs"
  shows "(getCurrentPhase (Some gs) = ''human_decide'' \<longrightarrow>
            \<not> game_over gs \<and> even (current_round gs)
            \<and> (\<exists>ms a m. messages gs = Some ms \<and> ms \<noteq> [] \<and> last ms = Obj a m
                  \<and> role m = ''proposer'' \<and> player m = ''ai''))
       \<and> (\<forall>ms a m. \<not> game_over gs \<and> even (current_round gs)
              \<and> messages gs = Some (ms @ [Obj a m])
              \<and> role m = ''proposer'' \<and> player m = ''human'' \<longrightarrow>
            getCurrentPhase (Some gs) = ''waiting'')"
  using assms
  by (auto simp: getCurrentPhase_def Let_def js_rem_2_odd last_conv_nth
           split: msg_ref.splits if_splits option.splits)

theorem human_decide_only_after_ai_proposal_witness:
  "getCurrentPhase (Some (example_game 2 (ledger_round1 @ [Obj 2 (ai_proposal 2 4)])))
     = ''human_decide''
   \<and> even (current_round (example_game 2 (ledger_round1 @ [Obj 2 (ai_proposal 2 4)])))
   \<and> getCurrentPhase (Some (example_game 2 (ledger_round1 @ [Obj 2 (human_proposal 2 4)])))
     = ''waiting''"
  using human_decide_only_after_ai_proposal
          [of "example_game 2 (ledger_round1 @ [Obj 2 (ai_proposal 2 4)])"]
        human_decide_only_after_ai_proposal
          [of "example_game 2 (ledger_round1 @ [Obj 2 (human_proposal 2 4)])"]
  by (simp add: example_defs getCurrentPhase_def js_rem_def)

section \<open>The big-win predicate\<close>

text \<open>
  C3. \<open>isWinner\<close> is false for a \<open>null\<close> state; for any other state it is true exactly
  when \<open>human_score > 30\<close> or \<open>human_score - ai_score > 10\<close>; and it does not depend on
  the \<open>winner\<close> field.
\<close>

theorem isWinner_big_win:
  "isWinner None = False
   \<and> isWinner (Some st) = (human_score st > 30 \<or> human_score st - ai_score st > 10)
   \<and> isWinner (Some (st\<lparr>winner := w\<rparr>)) = isWinner (Some st)"
  by (simp add: isWinner_def)

theorem isWinner_big_win_witness:
  "isWinner (Some (example_game 6 ledger_round2)) = False
   \<and> isWinner (Some ((example_game 6 ledger_round2)\<lparr>human_score := 16, winner := Some ''ai''\<rparr>)) = True"
  using isWinner_big_win [of "example_game 6 ledger_round2" "Some ''ai''"]
        isWinner_big_win [of "(example_game 6 ledger_round2)\<lparr>human_score := 16\<rparr>" "Some ''ai''"]
  by (simp add: example_game_def)

section \<open>Proposals are in human-side units\<close>

text \<open>
  C2. For a proposer message with proposal \<open>p\<close>, the history line shows \<open>p\<close> points for
  the human and \<open>10 - p\<close> for the counterpart, whoever the player of the message is; the
  panel of phase \<open>human_decide\<close> shows the same two numbers for the last message.
\<close>

theorem proposal_rendered_in_human_units:
  assumes "role msg = ''proposer''" and "proposal msg = Some p"
  shows "historyProposalSpan msg = Some (p, 10 - p)
       \<and> historyProposalSpan (msg\<lparr>player := ''human''\<rparr>) = Some (p, 10 - p)
       \<and> historyProposalSpan (msg\<lparr>player := ''ai''\<rparr>) = Some (p, 10 - p)
       \<and> humanDecidePanel (gs\<lparr>messages := Some (ms @ [Obj a msg])\<rparr>)
           = Inr (Some (Some p, 10 - p))"
  using assms by (simp add: historyProposalSpan_def humanDecidePanel_def)

theorem proposal_rendered_in_human_units_witness:
  "historyProposalSpan (human_proposal 1 7) = Some (7, 3)
   \<and> historyProposalSpan (ai_proposal 2 4) = Some (4, 6)
   \<and> humanDecidePanel (example_game 2 (ledger_round1 @ [Obj 2 (ai_proposal 2 4)]))
       = Inr (Some (Some 4, 6))"
  using proposal_rendered_in_human_units
          [where msg = "human_proposal 1 7" and p = 7 and gs = "example_game 2 []"
             and ms = ledger_round1 and a = 2]
        proposal_rendered_in_human_units
          [where msg = "ai_proposal 2 4" and p = 4 and gs = "example_game 2 []"
             and ms = ledger_round1 and a = 2]
  by (simp add: example_defs)

section \<open>Scheduling the counterpart's proposal\<close>

text \<open>Parsing a response gives the messages new addresses and leaves the phase as it is.\<close>

lemma json_parse_length: "length (json_parse_messages n ms) = length ms"
  by (induction n ms rule: json_parse_messages.induct) simp_all

lemma json_parse_nth:
  "i < length ms \<Longrightarrow>
     (case json_parse_messages n ms ! i of Null \<Rightarrow> a | Obj _ m \<Rightarrow> f m)
       = (case ms ! i of Null \<Rightarrow> a | Obj _ m \<Rightarrow> f m)"
proof (induction n ms arbitrary: i rule: json_parse_messages.induct)
  case (1 n)
  then show ?case by simp
next
  case (2 n ms)
  then show ?case by (cases i) simp_all
next
  case (3 n uu m ms)
  then show ?case by (cases i) simp_all
qed

lemma getCurrentPhase_json:
  "getCurrentPhase (Some (data\<lparr>messages := map_option (json_parse_messages n) (messages data)\<rparr>))
     = getCurrentPhase (Some data)"
proof (cases "messages data")
  case None
  then show ?thesis by (simp add: getCurrentPhase_def)
next
  case (Some ms)
  show ?thesis
  proof (cases "ms = []")
    case True
    with Some show ?thesis by (simp add: getCurrentPhase_def)
  next
    case False
    then have "length ms - 1 < length ms" by simp
    with Some False show ?thesis
      by (simp add: getCurrentPhase_def Let_def json_parse_length json_parse_nth)
  qed
qed

lemma gameState_makeDecision:
  "sessionId s = Some sid \<Longrightarrow> sid \<noteq> [] \<Longrightarrow>
     gameState (makeDecision accept s (Returns data))
       = Some (data\<lparr>messages := map_option (json_parse_messages (nextAddr s)) (messages data)\<rparr>)"
  by (simp add: makeDecision_def setGameState_json_def Let_def split: option.splits)

lemma gameState_makeProposal:
  "sessionId s = Some sid \<Longrightarrow> sid \<noteq> [] \<Longrightarrow> makeProposal s (Returns data) = Inr s' \<Longrightarrow>
     gameState s'
       = Some (data\<lparr>messages :=
                  map_option (json_parse_messages (Suc (nextAddr s))) (messages data)\<rparr>)"
  by (auto simp: makeProposal_def setGameState_json_def Let_def split: option.splits if_splits)

lemma phase_when_scheduled:
  assumes "\<not> game_over data" and "even (current_round data)"
  shows "getCurrentPhase (Some data) \<noteq> ''waiting_ai_decision''"
    and "getCurrentPhase (Some data) \<noteq> ''game_over''"
  using assms
  by (auto simp: getCurrentPhase_def Let_def js_rem_def sgn_if
           split: option.splits msg_ref.splits if_splits)

lemma scheduled_when_waiting:
  assumes "getCurrentPhase (Some data) = ''waiting_ai_proposal''" and "0 \<le> current_round data"
  shows "\<not> game_over data \<and> even (current_round data)"
  using assms
  by (auto simp: getCurrentPhase_def Let_def js_rem_2_odd
           split: option.splits msg_ref.splits if_splits)

text \<open>
  C4, as stated, fails: the request is not made exactly when the phase has the
  counterpart proposing. After one failed \<open>/ai-propose\<close> the phase is
  \<open>waiting_ai_proposal\<close> and no request is pending; and a response whose ledger already
  ends with the counterpart's proposal schedules \<open>aiPropose\<close> in phase \<open>human_decide\<close>.
\<close>

theorem aiPropose_not_tied_to_phase:
  "run example_unanswered (initial_state Map.empty) = Inr example_stuck
   \<and> getCurrentPhase (gameState example_stuck) = ''waiting_ai_proposal''
   \<and> timers example_stuck = []
   \<and> makeProposal example_fresh
        (Returns (example_game 2 (ledger_round1 @ [Obj 2 (ai_proposal 2 4)])))
       = Inr example_overtaken
   \<and> getCurrentPhase (gameState example_overtaken) = ''human_decide''
   \<and> timers example_overtaken = [AiProposeTimer 1000 (Some ''abc'')]"
  by (simp add: example_defs mountEffect_def startNewGame_def fetchGameState_def
                makeProposal_def aiPropose_def aiProposesNext_def setGameState_json_def
                getCurrentPhase_def js_rem_def trim_def)

text \<open>
  C4, amended. When a propose or decide request succeeds in a session with a game
  state, the handler schedules \<open>aiPropose\<close>, with the session id of the call, exactly
  when the returned round is greater than the previous one, the returned game is not
  over and the returned round is even; otherwise, and when the request fails, the
  pending timers are unchanged. So nothing is scheduled for an odd round or a game that
  is over. When the timer fires, \<open>aiPropose\<close> makes one \<open>/ai-propose\<close> request for that
  session id. As to the phase of the state the response leaves: if it is
  \<open>waiting_ai_proposal\<close> and the returned round is at least 0 and greater than the
  previous one, \<open>aiPropose\<close> is scheduled; and when \<open>aiPropose\<close> is scheduled the phase
  is neither \<open>waiting_ai_decision\<close> nor \<open>game_over\<close>.
\<close>

theorem aiPropose_scheduled_iff:
  assumes "sessionId s = Some sid" and "sid \<noteq> []" and "gameState s = Some gs"
  shows "timers (makeDecision accept s (Returns data)) =
           (if current_round gs < current_round data \<and> \<not> game_over data
               \<and> even (current_round data)
            then timers s @ [AiProposeTimer 1000 (Some sid)] else timers s)
       \<and> (messages gs \<noteq> None \<longrightarrow>
            (\<exists>s'. makeProposal s (Returns data) = Inr s'
               \<and> timers s' =
                   (if current_round gs < current_round data \<and> \<not> game_over data
                       \<and> even (current_round data)
                    then timers s @ [AiProposeTimer 1000 (Some sid)] else timers s)
               \<and> getCurrentPhase (gameState s') = getCurrentPhase (Some data)))
       \<and> timers (makeDecision accept s (Throws err)) = timers s
       \<and> (messages gs \<noteq> None \<longrightarrow>
            (\<exists>s'. makeProposal s (Throws err) = Inr s' \<and> timers s' = timers s))
       \<and> (\<exists>u'. handle (TimerFires r) (u\<lparr>timers := AiProposeTimer 1000 (Some sid) # ts\<rparr>) = Inr u'
              \<and> requests u' = requests u @ [PostAiPropose sid] \<and> timers u' = ts)
       \<and> getCurrentPhase (gameState (makeDecision accept s (Returns data)))
           = getCurrentPhase (Some data)
       \<and> (getCurrentPhase (Some data) = ''waiting_ai_proposal''
            \<and> current_round gs < current_round data \<and> 0 \<le> current_round data \<longrightarrow>
              timers (makeDecision accept s (Returns data))
                = timers s @ [AiProposeTimer 1000 (Some sid)])
       \<and> (timers (makeDecision accept s (Returns data))
              = timers s @ [AiProposeTimer 1000 (Some sid)] \<longrightarrow>
              getCurrentPhase (Some data) \<noteq> ''waiting_ai_decision''
              \<and> getCurrentPhase (Some data) \<noteq> ''game_over'')"
proof -
  let ?sched = "if current_round gs < current_round data \<and> \<not> game_over data
                   \<and> even (current_round data)
                then timers s @ [AiProposeTimer 1000 (Some sid)] else timers s"
  have decide: "timers (makeDecision accept s (Returns data)) = ?sched"
    using assms
    by (simp add: makeDecision_def aiProposesNext_def setGameState_json_def Let_def
                  js_rem_2_even)
  have propose: "messages gs \<noteq> None \<longrightarrow>
      (\<exists>s'. makeProposal s (Returns data) = Inr s' \<and> timers s' = ?sched
         \<and> getCurrentPhase (gameState s') = getCurrentPhase (Some data))"
  proof
    assume "messages gs \<noteq> None"
    then obtain s' where s': "makeProposal s (Returns data) = Inr s'" and t: "timers s' = ?sched"
      using assms
      by (auto simp: makeProposal_def aiProposesNext_def setGameState_json_def Let_def
                     js_rem_2_even)
    from assms(1,2) s' have "gameState s' =
        Some (data\<lparr>messages :=
                 map_option (json_parse_messages (Suc (nextAddr s))) (messages data)\<rparr>)"
      by (rule gameState_makeProposal)
    then have "getCurrentPhase (gameState s') = getCurrentPhase (Some data)"
      by (simp only: getCurrentPhase_json)
    with s' t show "\<exists>s'. makeProposal s (Returns data) = Inr s' \<and> timers s' = ?sched
         \<and> getCurrentPhase (gameState s') = getCurrentPhase (Some data)"
      by blast
  qed
  have decide_fails: "timers (makeDecision accept s (Throws err)) = timers s"
    using assms by (simp add: makeDecision_def Let_def)
  have propose_fails: "messages gs \<noteq> None \<longrightarrow>
      (\<exists>s'. makeProposal s (Throws err) = Inr s' \<and> timers s' = timers s)"
    using assms by (auto simp: makeProposal_def Let_def)
  have fires: "\<exists>u'. handle (TimerFires r) (u\<lparr>timers := AiProposeTimer 1000 (Some sid) # ts\<rparr>) = Inr u'
      \<and> requests u' = requests u @ [PostAiPropose sid] \<and> timers u' = ts"
    using assms(2) by (cases r) (simp_all add: aiPropose_def setGameState_json_def Let_def)
  have phase: "getCurrentPhase (gameState (makeDecision accept s (Returns data)))
      = getCurrentPhase (Some data)"
    by (simp only: gameState_makeDecision [OF assms(1,2)] getCurrentPhase_json)
  have waiting: "getCurrentPhase (Some data) = ''waiting_ai_proposal''
      \<and> current_round gs < current_round data \<and> 0 \<le> current_round data \<longrightarrow>
        timers (makeDecision accept s (Returns data))
          = timers s @ [AiProposeTimer 1000 (Some sid)]"
    using scheduled_when_waiting [of data] decide by simp
  have scheduled: "timers (makeDecision accept s (Returns data))
        = timers s @ [AiProposeTimer 1000 (Some sid)] \<longrightarrow>
        getCurrentPhase (Some data) \<noteq> ''waiting_ai_decision''
        \<and> getCurrentPhase (Some data) \<noteq> ''game_over''"
  proof
    assume "timers (makeDecision accept s (Returns data))
        = timers s @ [AiProposeTimer 1000 (Some sid)]"
    with decide have "\<not> game_over data \<and> even (current_round data)"
      by (simp split: if_splits)
    then show "getCurrentPhase (Some data) \<noteq> ''waiting_ai_decision''
        \<and> getCurrentPhase (Some data) \<noteq> ''game_over''"
      using phase_when_scheduled [of data] by blast
  qed
  from decide propose decide_fails propose_fails fires phase waiting scheduled
  show ?thesis by (intro conjI)
qed

theorem aiPropose_scheduled_iff_witness:
  "timers (makeDecision True example_fresh (Returns (example_game 2 ledger_round1)))
     = [AiProposeTimer 1000 (Some ''abc'')]
   \<and> getCurrentPhase (gameState (makeDecision True example_fresh
        (Returns (example_game 2 ledger_round1)))) = ''waiting_ai_proposal''
   \<and> timers (makeDecision True example_fresh (Returns (example_game 3 ledger_round2))) = []
   \<and> timers (makeDecision True example_fresh
        (Returns ((example_game 2 ledger_round1)\<lparr>game_over := True\<rparr>))) = []
   \<and> (\<exists>s'. makeProposal example_fresh (Returns (example_game 2 ledger_round1)) = Inr s'
          \<and> timers s' = [AiProposeTimer 1000 (Some ''abc'')]
          \<and> getCurrentPhase (gameState s') = ''waiting_ai_proposal'')
   \<and> (\<exists>u'. handle (TimerFires (Throws ''offline''))
               (example_fresh\<lparr>timers := [AiProposeTimer 1000 (Some ''abc'')]\<rparr>) = Inr u'
          \<and> requests u' = requests example_fresh @ [PostAiPropose ''abc''] \<and> timers u' = [])"
  using aiPropose_scheduled_iff
          [where s = example_fresh and sid = "''abc''" and gs = "example_game 1 []"
             and accept = True and data = "example_game 2 ledger_round1"
             and r = "Throws ''offline''" and u = example_fresh and ts = "[]"]
        aiPropose_scheduled_iff
          [where s = example_fresh and sid = "''abc''" and gs = "example_game 1 []"
             and accept = True and data = "example_game 3 ledger_round2"]
        aiPropose_scheduled_iff
          [where s = example_fresh and sid = "''abc''" and gs = "example_game 1 []"
             and accept = True and data = "(example_game 2 ledger_round1)\<lparr>game_over := True\<rparr>"]
  by (simp add: example_defs getCurrentPhase_def js_rem_def)

section \<open>Submitting the player's name\<close>

lemma dropWhile_unchanged: "ys \<noteq> [] \<Longrightarrow> \<not> P (hd ys) \<Longrightarrow> dropWhile P ys = ys"
  by (cases ys) auto

lemma rev_dropWhile_rev_split: "t = rev (dropWhile P (rev t)) @ rev (takeWhile P (rev t))"
proof -
  have "rev t = takeWhile P (rev t) @ dropWhile P (rev t)" by simp
  then have "rev (rev t) = rev (takeWhile P (rev t) @ dropWhile P (rev t))" by (rule arg_cong)
  then show ?thesis by (simp only: rev_rev_ident rev_append)
qed

text \<open>Stripping the end of a string leaves a stripped front as it is.\<close>

lemma dropWhile_rev_dropWhile:
  assumes "t = [] \<or> \<not> P (hd t)"
  shows "dropWhile P (rev (dropWhile P (rev t))) = rev (dropWhile P (rev t))"
proof (cases "rev (dropWhile P (rev t)) = []")
  case True
  show ?thesis by (simp only: True dropWhile.simps)
next
  case False
  let ?u = "rev (dropWhile P (rev t))"
  have split: "t = ?u @ rev (takeWhile P (rev t))" by (rule rev_dropWhile_rev_split)
  from False have ne: "t \<noteq> []" by auto
  from False have "hd (?u @ rev (takeWhile P (rev t))) = hd ?u" by (rule hd_append2)
  with split have hd_eq: "hd ?u = hd t" by simp
  from ne assms have "\<not> P (hd t)" by simp
  with hd_eq have "\<not> P (hd ?u)" by simp
  with False show ?thesis by (rule dropWhile_unchanged)
qed

lemma dropWhile_head: "dropWhile P s = [] \<or> \<not> P (hd (dropWhile P s))"
  by (metis hd_dropWhile)

lemma trim_trim: "trim (trim s) = trim s"
proof -
  have "dropWhile is_space (rev (dropWhile is_space (rev (dropWhile is_space s))))
        = rev (dropWhile is_space (rev (dropWhile is_space s)))"
    by (rule dropWhile_rev_dropWhile) (rule dropWhile_head)
  then show ?thesis by (simp add: trim_def)
qed

text \<open>
  C5. If \<open>playerName\<close> trims to the empty string, \<open>submitPlayerName\<close> returns the state
  it was called in: no request, no change. Otherwise it issues one PATCH request, and the
  name in it trims to a non-empty string. Both versions of the handler behave so: the
  later one sends the trimmed name, the earlier one \<open>playerName\<close> itself.
\<close>

theorem submitPlayerName_never_empty:
  "(trim (playerName s) = [] \<longrightarrow>
      submitPlayerName s r = s \<and> submitPlayerName_frontend s r = s)
   \<and> (trim (playerName s) \<noteq> [] \<longrightarrow>
        requests (submitPlayerName s r)
          = requests s @ [PatchGame (sessionId s) (trim (playerName s))]
        \<and> trim (trim (playerName s)) \<noteq> []
        \<and> requests (submitPlayerName_frontend s r)
          = requests s @ [PatchGame (sessionId s) (playerName s)])"
  by (cases r)
     (simp_all add: submitPlayerName_def submitPlayerName_frontend_def setGameState_json_def
                    Let_def trim_trim)

theorem submitPlayerName_never_empty_witness:
  "trim ''  '' = []
   \<and> submitPlayerName (example_started\<lparr>playerName := ''  ''\<rparr>) (Throws ''offline'')
       = example_started\<lparr>playerName := ''  ''\<rparr>
   \<and> trim '' Ann '' = ''Ann''
   \<and> requests (submitPlayerName (example_started\<lparr>playerName := '' Ann ''\<rparr>) (Throws ''offline''))
       = [PostNewGame None, GetGame ''abc'', PatchGame (Some ''abc'') ''Ann'']
   \<and> requests (submitPlayerName_frontend (example_started\<lparr>playerName := '' Ann ''\<rparr>)
         (Throws ''offline''))
       = [PostNewGame None, GetGame ''abc'', PatchGame (Some ''abc'') '' Ann '']"
  using submitPlayerName_never_empty
          [of "example_started\<lparr>playerName := ''  ''\<rparr>" "Throws ''offline''"]
        submitPlayerName_never_empty
          [of "example_started\<lparr>playerName := '' Ann ''\<rparr>" "Throws ''offline''"]
  by (simp add: example_defs trim_def is_space_def)

section \<open>Opening the name dialog\<close>

text \<open>
  C6. The effect opens the dialog (it was closed and is open afterwards) exactly when
  there is a game state that is over, \<open>isWinner\<close> holds for it, its \<open>player_name\<close> is
  \<open>null\<close> or empty, and the dialog is not shown.
\<close>

theorem nameDialogEffect_opens_iff:
  "((showNameDialog (nameDialogEffect s) \<and> \<not> showNameDialog s) =
      (\<exists>gs. gameState s = Some gs \<and> game_over gs \<and> isWinner (Some gs)
         \<and> falsy (player_name gs) \<and> \<not> showNameDialog s))
   \<and> (\<forall>gs. gameState s = Some gs \<and> (\<not> game_over gs \<or> \<not> falsy (player_name gs)) \<longrightarrow>
         nameDialogEffect s = s)"
  by (auto simp: nameDialogEffect_def split: option.splits)

theorem nameDialogEffect_opens_iff_witness:
  "showNameDialog (nameDialogEffect (example_started\<lparr>gameState :=
      Some ((example_game 6 ledger_round2)\<lparr>game_over := True, human_score := 36\<rparr>)\<rparr>))
   \<and> nameDialogEffect example_started = example_started
   \<and> nameDialogEffect (example_started\<lparr>gameState :=
        Some ((example_game 6 ledger_round2)
                \<lparr>game_over := True, human_score := 36, player_name := Some ''Ann''\<rparr>)\<rparr>)
       = example_started\<lparr>gameState :=
        Some ((example_game 6 ledger_round2)
                \<lparr>game_over := True, human_score := 36, player_name := Some ''Ann''\<rparr>)\<rparr>"
  using nameDialogEffect_opens_iff
          [of "example_started\<lparr>gameState :=
             Some ((example_game 6 ledger_round2)\<lparr>game_over := True, human_score := 36\<rparr>)\<rparr>"]
        nameDialogEffect_opens_iff [of example_started]
        nameDialogEffect_opens_iff
          [of "example_started\<lparr>gameState :=
             Some ((example_game 6 ledger_round2)
                     \<lparr>game_over := True, human_score := 36, player_name := Some ''Ann''\<rparr>)\<rparr>"]
  by (simp add: example_defs isWinner_def falsy_def)

section \<open>Messages are capped at 256 characters\<close>

lemmas handler_defs = mountEffect_def leaderboardEffect_def fetchLeaderboard_def
  nameDialogEffect_def handleScoreClick_def startNewGame_def fetchGameState_def
  handleProposalMessageChange_def handleDecisionMessageChange_def submitPlayerName_def
  makeDecision_def aiPropose_def sortByScore_def sortByDifference_def previousPage_def
  nextPage_def

lemma capped_handle: "capped s \<Longrightarrow> handle e s = Inr s' \<Longrightarrow> capped s'"
  by (cases e)
     (auto simp: capped_def handler_defs makeProposal_def setGameState_json_def Let_def
           split: fetch_result.splits option.splits if_splits list.splits timer.splits)

lemma capped_run: "capped s \<Longrightarrow> run evs s = Inr s' \<Longrightarrow> capped s'"
proof (induction evs arbitrary: s)
  case Nil
  then show ?case by simp
next
  case (Cons e es)
  then show ?case by (auto split: sum.splits dest: capped_handle)
qed

lemma capped_initial: "capped (initial_state storage)"
  by (simp add: capped_def initial_state_def)

text \<open>
  C7. Each change handler stores the first 256 characters of the value. In every state
  that a run of the component reaches from its initial state, \<open>proposalMessage\<close> and
  \<open>decisionMessage\<close> have at most 256 characters, and so has the message field of every
  \<open>/propose\<close> and \<open>/decide\<close> request made so far.
\<close>

theorem messages_capped_at_256:
  assumes "run evs (initial_state storage) = Inr s"
  shows "proposalMessage (handleProposalMessageChange v s) = take 256 v
       \<and> decisionMessage (handleDecisionMessageChange v s) = take 256 v
       \<and> length (proposalMessage s) \<le> 256
       \<and> length (decisionMessage s) \<le> 256
       \<and> list_all message_capped (requests s)"
proof -
  from capped_initial assms have "capped s" by (rule capped_run)
  then show ?thesis
    by (simp add: capped_def handleProposalMessageChange_def handleDecisionMessageChange_def)
qed

theorem messages_capped_at_256_witness:
  "run example_typing (initial_state Map.empty) = Inr example_typed
   \<and> proposalMessage example_typed = replicate 256 (CHR ''x'')
   \<and> length (proposalMessage example_typed) \<le> 256
   \<and> list_all message_capped (requests example_typed)"
proof -
  have reach: "run example_typing (initial_state Map.empty) = Inr example_typed"
    by (simp add: example_defs handler_defs makeProposal_def setGameState_json_def
                  trim_def falsy_def)
  from messages_capped_at_256 [OF reach] reach show ?thesis
    by (simp add: example_typed_def)
qed

section \<open>Leaderboard pages are counted from 1\<close>

lemma paged_handle: "paged s \<Longrightarrow> total_pages_ok e \<Longrightarrow> handle e s = Inr s' \<Longrightarrow> paged s'"
  by (cases e)
     (auto simp: paged_def handler_defs makeProposal_def setGameState_json_def Let_def
           split: fetch_result.splits option.splits if_splits list.splits timer.splits)

lemma paged_run:
  "paged s \<Longrightarrow> list_all total_pages_ok evs \<Longrightarrow> run evs s = Inr s' \<Longrightarrow> paged s'"
proof (induction evs arbitrary: s)
  case Nil
  then show ?case by simp
next
  case (Cons e es)
  then show ?case by (auto split: sum.splits dest: paged_handle)
qed

lemma paged_initial: "paged (initial_state storage)"
  by (simp add: paged_def initial_state_def)

text \<open>
  C8, as stated, fails: the next-page button takes the minimum with \<open>totalPages\<close>,
  which is whatever the server last sent. After a response with \<open>total_pages = 0\<close> the
  button sets the page to 0, and the next query asks for page 0.
\<close>

theorem leaderboard_page_zero:
  "run example_no_pages (initial_state Map.empty) = Inr example_page_zero
   \<and> leaderboardPage example_page_zero = 0
   \<and> requests example_page_zero
       = [GetLeaderboard ''score'' 1 10, GetLeaderboard ''score'' 0 10]
   \<and> \<not> list_all page_from_one (requests example_page_zero)"
  by (simp add: example_defs mountEffect_def leaderboardEffect_def fetchLeaderboard_def
                nextPage_def falsy_def)

text \<open>
  C8, amended. The page starts at 1; the previous-page button sets it to \<open>max(1, page - 1)\<close>, the
  next-page button to \<open>min(totalPages, page + 1)\<close>, and both sort buttons to 1. In every
  state that a run reaches from the initial state, with a server whose \<open>total_pages\<close> is
  at least 1, the page is at least 1, it stays so under each of the four buttons, and
  every leaderboard query made so far asked for a page of at least 1.
\<close>

theorem leaderboard_page_from_one:
  assumes "list_all total_pages_ok evs" and "run evs (initial_state storage) = Inr s"
  shows "leaderboardPage (initial_state storage) = 1
       \<and> leaderboardPage (previousPage s) = max 1 (leaderboardPage s - 1)
       \<and> leaderboardPage (nextPage s) = min (leaderboardTotalPages s) (leaderboardPage s + 1)
       \<and> leaderboardPage (sortByScore s) = 1
       \<and> leaderboardPage (sortByDifference s) = 1
       \<and> 1 \<le> leaderboardPage s
       \<and> 1 \<le> leaderboardPage (previousPage s)
       \<and> 1 \<le> leaderboardPage (nextPage s)
       \<and> list_all page_from_one (requests s)"
proof -
  from paged_initial assms have "paged s" by (rule paged_run)
  then show ?thesis
    by (simp add: paged_def initial_state_def previousPage_def nextPage_def sortByScore_def
                  sortByDifference_def)
qed

theorem leaderboard_page_from_one_witness:
  "list_all total_pages_ok example_paging
   \<and> run example_paging (initial_state Map.empty) = Inr example_paged
   \<and> leaderboardPage example_paged = 1
   \<and> leaderboardPage (nextPage example_paged) = 2
   \<and> leaderboardPage (previousPage example_paged) = 1
   \<and> list_all page_from_one (requests example_paged)"
proof -
  have ok: "list_all total_pages_ok example_paging"
    by (simp add: example_defs)
  have reach: "run example_paging (initial_state Map.empty) = Inr example_paged"
    by (simp add: example_defs handler_defs trim_def falsy_def STORAGE_KEY_def)
  from leaderboard_page_from_one [OF ok reach] ok reach show ?thesis
    by (simp add: example_defs)
qed

section \<open>A failed proposal is rolled back\<close>

lemma below_Suc: "below n m \<Longrightarrow> below (Suc n) m"
  by (cases m) auto

lemma below_mono: "below n m \<Longrightarrow> n \<le> k \<Longrightarrow> below k m"
  by (cases m) auto

lemma json_parse_below: "list_all (below (n + length ms)) (json_parse_messages n ms)"
proof (induction n ms rule: json_parse_messages.induct)
  case (1 n)
  then show ?case by simp
next
  case (2 n ms)
  then show ?case by (auto simp: list_all_iff intro: below_mono)
next
  case (3 n uu m ms)
  then show ?case by simp
qed

lemma heap_ok_setGameState_json: "heap_ok (setGameState_json d s)"
  by (auto simp: heap_ok_def setGameState_json_def json_parse_below split: option.splits)

text \<open>Filtering by identity removes the new object and nothing else.\<close>

lemma filter_others:
  "list_all (below n) ms \<Longrightarrow> filter (\<lambda>m. \<not> same_object m (Obj n t)) ms = ms"
proof (induction ms)
  case Nil
  then show ?case by simp
next
  case (Cons m ms)
  then show ?case by (cases m) auto
qed

lemma filter_temp:
  "list_all (below n) ms \<Longrightarrow> filter (\<lambda>m. \<not> same_object m (Obj n t)) (ms @ [Obj n t]) = ms"
  by (simp add: filter_others)

lemma messages_same: "messages g = v \<Longrightarrow> g\<lparr>messages := v\<rparr> = g"
  by auto

lemma heap_ok_other [simp]:
  "heap_ok (s\<lparr>sessionId := a1\<rparr>) = heap_ok s"
  "heap_ok (s\<lparr>loading := a2\<rparr>) = heap_ok s"
  "heap_ok (s\<lparr>error := a3\<rparr>) = heap_ok s"
  "heap_ok (s\<lparr>showNameDialog := a4\<rparr>) = heap_ok s"
  "heap_ok (s\<lparr>playerName := a5\<rparr>) = heap_ok s"
  "heap_ok (s\<lparr>leaderboard := a6\<rparr>) = heap_ok s"
  "heap_ok (s\<lparr>showFullLeaderboard := a7\<rparr>) = heap_ok s"
  "heap_ok (s\<lparr>leaderboardSort := a8\<rparr>) = heap_ok s"
  "heap_ok (s\<lparr>leaderboardPage := a9\<rparr>) = heap_ok s"
  "heap_ok (s\<lparr>leaderboardTotalPages := b1\<rparr>) = heap_ok s"
  "heap_ok (s\<lparr>proposalPoints := b2\<rparr>) = heap_ok s"
  "heap_ok (s\<lparr>proposalMessage := b3\<rparr>) = heap_ok s"
  "heap_ok (s\<lparr>decisionMessage := b4\<rparr>) = heap_ok s"
  "heap_ok (s\<lparr>localStorage := b5\<rparr>) = heap_ok s"
  "heap_ok (s\<lparr>requests := b6\<rparr>) = heap_ok s"
  "heap_ok (s\<lparr>timers := b7\<rparr>) = heap_ok s"
  by (simp_all add: heap_ok_def split: option.splits)

lemma heap_ok_makeProposal: "heap_ok s \<Longrightarrow> makeProposal s r = Inr s' \<Longrightarrow> heap_ok s'"
proof (cases r)
  case (Throws err)
  assume "heap_ok s" "makeProposal s r = Inr s'"
  with Throws show ?thesis
    by (auto simp: makeProposal_def Let_def heap_ok_def list_all_iff below_Suc
             split: option.splits if_splits)
next
  case (Returns d)
  assume "heap_ok s" "makeProposal s r = Inr s'"
  with Returns show ?thesis
    by (auto simp: makeProposal_def Let_def heap_ok_setGameState_json
             split: option.splits if_splits)
qed

lemma heap_ok_handle: "heap_ok s \<Longrightarrow> handle e s = Inr s' \<Longrightarrow> heap_ok s'"
  by (cases e)
     (auto simp: handler_defs Let_def heap_ok_setGameState_json heap_ok_makeProposal
           split: fetch_result.splits option.splits if_splits list.splits timer.splits)

lemma heap_ok_run: "heap_ok s \<Longrightarrow> run evs s = Inr s' \<Longrightarrow> heap_ok s'"
proof (induction evs arbitrary: s)
  case Nil
  then show ?case by simp
next
  case (Cons e es)
  then show ?case by (auto split: sum.splits dest: heap_ok_handle)
qed

lemma heap_ok_initial: "heap_ok (initial_state storage)"
  by (simp add: heap_ok_def initial_state_def)

lemma makeProposal_Throws:
  assumes "heap_ok s" and "makeProposal s (Throws err) = Inr s'"
  shows "gameState s' = gameState s"
    and "s'\<lparr>loading := loading s, error := error s, nextAddr := nextAddr s,
            requests := requests s\<rparr> = s"
    and "\<not> falsy (sessionId s) \<longrightarrow>
           \<not> loading s' \<and> error s' = ''Failed to make proposal: '' @ err"
  using assms
  by (auto simp: makeProposal_def Let_def heap_ok_def filter_others messages_same falsy_def
           split: option.splits if_splits)

text \<open>
  C9. In a state that a run reaches from the initial state, a call of \<open>makeProposal\<close>
  whose request throws leaves the game state, and with it the message list, exactly as
  it was before the call: the temporary message is gone and no other message is. The
  rest of the component state is unchanged too, apart from the error text, which
  reports the failure, and the loading flag, which is cleared.
\<close>

theorem failed_proposal_rolled_back:
  assumes "run evs (initial_state storage) = Inr s"
      and "makeProposal s (Throws err) = Inr s'"
  shows "gameState s' = gameState s
       \<and> s'\<lparr>loading := loading s, error := error s, nextAddr := nextAddr s,
             requests := requests s\<rparr> = s
       \<and> (\<not> falsy (sessionId s) \<longrightarrow>
             \<not> loading s' \<and> error s' = ''Failed to make proposal: '' @ err)"
proof -
  from heap_ok_initial assms(1) have "heap_ok s" by (rule heap_ok_run)
  from makeProposal_Throws [OF this assms(2)] show ?thesis by simp
qed

theorem failed_proposal_rolled_back_witness:
  "run example_events (initial_state Map.empty) = Inr example_started
   \<and> makeProposal example_started (Throws ''offline'') = Inr example_failed
   \<and> gameState example_failed = gameState example_started
   \<and> gameState example_failed = Some (example_game 1 [Obj 0 (human_proposal 1 5)])
   \<and> error example_failed = ''Failed to make proposal: offline''"
proof -
  have reach: "run example_events (initial_state Map.empty) = Inr example_started"
    by (simp add: example_defs handler_defs setGameState_json_def trim_def)
  have fails: "makeProposal example_started (Throws ''offline'') = Inr example_failed"
    by (simp add: example_defs makeProposal_def)
  from failed_proposal_rolled_back [OF reach fails] reach fails show ?thesis
    by (simp add: example_defs)
qed

end
